theory Spec2Isabelle
  imports Complex_Main
begin

section \<open>Python values used by the receipt printer\<close>

subsection \<open>Strings and format specifications\<close>

text \<open>
  A Python \<open>str\<close> is modelled as a \<^typ>\<open>string\<close>, one element per character, so
  that \<^const>\<open>length\<close> is Python's \<open>len\<close> and \<open>s[i:i+20]\<close> is
  \<open>take 20 (drop i s)\<close>.  The format specifications \<open>:<w\<close> and \<open>:>w\<close> pad with
  spaces up to a minimum width and never truncate; \<open>:04x\<close> pads with zeros.
\<close>

definition nl :: string where
  "nl = [CHR 0x0A]"

definition pad :: "char \<Rightarrow> nat \<Rightarrow> nat \<Rightarrow> string" where
  "pad c w n = replicate (w - n) c"

definition ljust :: "nat \<Rightarrow> string \<Rightarrow> string" where
  "ljust w s = s @ pad CHR '' '' w (length s)"

definition rjust :: "nat \<Rightarrow> string \<Rightarrow> string" where
  "rjust w s = pad CHR '' '' w (length s) @ s"

definition digit :: "nat \<Rightarrow> char" where
  "digit d = ''0123456789abcdef'' ! (d mod 16)"

fun show_nat :: "nat \<Rightarrow> string" where
  "show_nat n = (if n < 10 then [digit n] else show_nat (n div 10) @ [digit (n mod 10)])"

fun show_hex :: "nat \<Rightarrow> string" where
  "show_hex n = (if n < 16 then [digit n] else show_hex (n div 16) @ [digit (n mod 16)])"

definition hex04 :: "nat \<Rightarrow> string" where
  "hex04 n = (let s = show_hex n in pad CHR ''0'' 4 (length s) @ s)"

subsection \<open>Numbers\<close>

text \<open>
  A JSON number arrives as a Python \<open>int\<close> or \<open>float\<close>.  A finite float
  \<open>PyFloat neg mant expo\<close> is kept as its sign bit, an integer mantissa and a binary
  exponent, so its value is exactly \<open>mant * 2 ^ expo\<close>, negative when \<open>neg\<close>
  (\<open>PyFloat True 0 0\<close> is \<open>-0.0\<close>); \<open>PyInf neg\<close> is an infinity and \<open>PyNaN\<close> a NaN, which
  the JSON decoder accepts (\<open>Infinity\<close>, \<open>NaN\<close>, \<open>1e400\<close>).  Results are rounded to
  binary64: 53 bits of mantissa, ties to even, exponent not below \<open>-1074\<close>, and a
  rounded result of \<open>2 ^ 1024\<close> or more is an infinity.
\<close>

datatype pyfloat = PyFloat bool nat int | PyInf bool | PyNaN

datatype pynum = PInt int | PFloat pyfloat

fun bitlen_nat :: "nat \<Rightarrow> nat" where
  "bitlen_nat n = (if n = 0 then 0 else Suc (bitlen_nat (n div 2)))"

definition round_shift :: "nat \<Rightarrow> nat \<Rightarrow> nat" where
  "round_shift m k =
     (let q = m div 2 ^ k; r = m mod 2 ^ k
      in if 2 ^ k < 2 * r \<or> (2 * r = 2 ^ k \<and> odd q) then q + 1 else q)"

definition round_double :: "bool \<Rightarrow> nat \<Rightarrow> int \<Rightarrow> pyfloat" where
  "round_double s m e =
     (let k = max (bitlen_nat m - 53) (nat (- 1074 - e));
          q = round_shift m k;
          e' = e + int k
      in if q \<noteq> 0 \<and> 1024 < int (bitlen_nat q) + e' then PyInf s else PyFloat s q e')"

text \<open>
  Exceptions: \<open>USBNotFoundError msg\<close>, \<open>KeyError key\<close>, and \<open>Error s\<close> for any other
  subclass of \<open>Exception\<close>, with \<open>s\<close> its \<open>str()\<close>.  The \<open>str()\<close> of a \<open>KeyError\<close> is
  the key between single quotes.  An exception that is raised while an argument is
  evaluated is the \<open>Inl\<close> of a sum; \<open>and_then\<close> continues with the value when there is
  one.
\<close>

datatype exn = USBNotFoundError string | KeyError string | Error string

definition and_then :: "exn + 'a \<Rightarrow> ('a \<Rightarrow> exn + 'b) \<Rightarrow> exn + 'b" where
  "and_then r k = (case r of Inl e \<Rightarrow> Inl e | Inr x \<Rightarrow> k x)"

text \<open>
  \<open>float(n)\<close> for an \<open>int\<close>, as the format \<open>'.2f'\<close> and a product with a \<open>float\<close> apply
  it: correctly rounded, and \<open>OverflowError\<close> when the result is out of range.
\<close>

definition int_to_float :: "int \<Rightarrow> exn + pyfloat" where
  "int_to_float n =
     (case round_double (n < 0) (nat \<bar>n\<bar>) 0 of
        PyInf s \<Rightarrow> Inl (Error ''int too large to convert to float'')
      | f \<Rightarrow> Inr f)"

definition to_float :: "pynum \<Rightarrow> exn + pyfloat" where
  "to_float x = (case x of PInt n \<Rightarrow> int_to_float n | PFloat f \<Rightarrow> Inr f)"

fun fmul :: "pyfloat \<Rightarrow> pyfloat \<Rightarrow> pyfloat" where
  "fmul (PyFloat s m e) (PyFloat s' m' e') = round_double (s \<noteq> s') (m * m') (e + e')"
| "fmul (PyFloat s m e) (PyInf s') = (if m = 0 then PyNaN else PyInf (s \<noteq> s'))"
| "fmul (PyInf s) (PyFloat s' m e) = (if m = 0 then PyNaN else PyInf (s \<noteq> s'))"
| "fmul (PyInf s) (PyInf s') = PyInf (s \<noteq> s')"
| "fmul PyNaN b = PyNaN"
| "fmul a PyNaN = PyNaN"

text \<open>\<open>x * y\<close>: exact on two \<open>int\<close>s, a float product otherwise.\<close>

definition pymul :: "pynum \<Rightarrow> pynum \<Rightarrow> exn + pynum" where
  "pymul x y = (case (x, y) of
       (PInt a, PInt b) \<Rightarrow> Inr (PInt (a * b))
     | _ \<Rightarrow> and_then (to_float x) (\<lambda>a. and_then (to_float y) (\<lambda>b. Inr (PFloat (fmul a b)))))"

text \<open>
  \<open>format(x, '.2f')\<close>.  A finite value is printed in hundredths, correctly rounded
  with ties to even, with at least one integer digit and exactly two decimals, and
  with its sign whenever the sign bit is set; an infinity is \<open>inf\<close> or \<open>-inf\<close> and a
  NaN is \<open>nan\<close>.  An \<open>int\<close> is converted to a float first, which can raise.
\<close>

definition hundredths :: "nat \<Rightarrow> int \<Rightarrow> nat" where
  "hundredths m e =
     (if 0 \<le> e then m * 2 ^ nat e * 100 else round_shift (m * 100) (nat (- e)))"

definition fixed2 :: "nat \<Rightarrow> string" where
  "fixed2 n = show_nat (n div 100) @ ''.'' @ [digit (n div 10 mod 10), digit (n mod 10)]"

definition fmt_float :: "pyfloat \<Rightarrow> string" where
  "fmt_float f = (case f of
       PyFloat s m e \<Rightarrow> (if s then ''-'' else '''') @ fixed2 (hundredths m e)
     | PyInf s \<Rightarrow> (if s then ''-inf'' else ''inf'')
     | PyNaN \<Rightarrow> ''nan'')"

definition fmt_2f :: "pynum \<Rightarrow> exn + string" where
  "fmt_2f x = and_then (to_float x) (\<lambda>f. Inr (fmt_float f))"

section \<open>Data model\<close>

text \<open>
  The request body is a JSON object.  Its keys are the fields below; a key that
  is absent from the object is \<open>None\<close>.  Values have the types the service
  expects of them (strings, numbers, a list of strings, a list of items).
\<close>

record item =
  name :: string
  quantity :: pynum
  price :: pynum

record invoice =
  company_name :: "string option"
  phone_numbers :: "string list option"
  address :: "string option"
  gstin :: "string option"
  website_url :: "string option"
  invoice_number :: "string option"
  invoice_date :: "string option"
  invoice_time :: "string option"
  customer_name :: "string option"
  items :: "item list option"
  subtotal :: "pynum option"
  discount :: "pynum option"
  total' :: "pynum option"

text \<open>\<open>field in data\<close>, for the keys the service reads.\<close>

definition has_field :: "invoice \<Rightarrow> string \<Rightarrow> bool" where
  "has_field data field =
     (if field = ''company_name'' then company_name data \<noteq> None
      else if field = ''phone_numbers'' then phone_numbers data \<noteq> None
      else if field = ''address'' then address data \<noteq> None
      else if field = ''gstin'' then gstin data \<noteq> None
      else if field = ''website_url'' then website_url data \<noteq> None
      else if field = ''invoice_number'' then invoice_number data \<noteq> None
      else if field = ''invoice_date'' then invoice_date data \<noteq> None
      else if field = ''invoice_time'' then invoice_time data \<noteq> None
      else if field = ''customer_name'' then customer_name data \<noteq> None
      else if field = ''items'' then items data \<noteq> None
      else if field = ''subtotal'' then subtotal data \<noteq> None
      else if field = ''discount'' then discount data \<noteq> None
      else if field = ''total'' then total' data \<noteq> None
      else False)"

subsection \<open>Configuration (\<open>CONFIG\<close>)\<close>

definition printer_vendors :: "(nat \<times> nat) list" where
  "printer_vendors = [(0x0483, 0x5743), (0x04b8, 0x0202), (0x067b, 0x2305)]"

definition default_company_name :: string where
  "default_company_name = ''STAGMENFASHION''"

definition default_company_phones :: "string list" where
  "default_company_phones = [''+917736444674'', ''+918943888200'']"

definition default_company_address :: string where
  "default_company_address = ''Kondotty''"

definition default_company_gstin :: string where
  "default_company_gstin = ''32MMRPS3804DIZS''"

definition default_company_website :: string where
  "default_company_website = ''https://stagmenfashion.com''"

section \<open>The printer, the image libraries and the log\<close>

type_synonym raster = "bool list list"

datatype align = AlignLeft | AlignCenter

text \<open>
  The calls made on an open printer: \<open>set(align=.., bold=..)\<close> (an omitted
  keyword is \<open>None\<close>), \<open>text(s)\<close>, \<open>image(img, impl="bitImageColumn")\<close>, \<open>cut()\<close>.
\<close>

datatype cmd = SetStyle "align option" "bool option" | Text string | Image raster | Cut

datatype level = DEBUG | INFO | WARNING | ERROR

text \<open>
  Everything the service does to the outside world, in order: \<open>Usb v p\<close> is the
  constructor call \<open>Usb(idVendor, idProduct)\<close>, \<open>Cmd c\<close> a call on the printer,
  \<open>Close\<close> is \<open>printer.close()\<close>, \<open>Log l m\<close> a call on the logger.
\<close>

datatype event = Usb nat nat | Cmd cmd | Close | Log level string

datatype 'a outcome = Returned 'a | Raised exn

text \<open>
  The environment is what the repository does not contain.  \<open>device\<close> is the
  behaviour of the USB stack and the printer: given the events so far and the
  call being made, the call returns (\<open>None\<close>) or raises.  \<open>usb_not_found_str\<close> is
  \<open>USBNotFoundError.__str__\<close> of the escpos library, as a function of the
  message the exception was built with.  \<open>code128\<close> and \<open>qr_png\<close> are the barcode
  and qrcode libraries; \<open>auth_token\<close> is the \<open>AUTH_TOKEN\<close> setting.
\<close>

record env =
  device :: "event list \<Rightarrow> event \<Rightarrow> exn option"
  usb_not_found_str :: "string \<Rightarrow> string"
  code128 :: "string \<Rightarrow> exn + raster"
  qr_png :: "string \<Rightarrow> exn + raster"
  auth_token :: string

definition str_exn :: "env \<Rightarrow> exn \<Rightarrow> string" where
  "str_exn E e = (case e of
       USBNotFoundError m \<Rightarrow> usb_not_found_str E m
     | KeyError k \<Rightarrow> [CHR 0x27] @ k @ [CHR 0x27]
     | Error s \<Rightarrow> s)"

section \<open>\<open>detect_printer\<close>\<close>

text \<open>
  One pass over the vendor table.  A constructor call that raises
  \<open>USBNotFoundError\<close> moves on to the next entry; any other exception leaves the
  function; the first call that returns ends the search.  The functions thread
  the list of events so far and return it extended.
\<close>

fun detect_loop :: "env \<Rightarrow> event list \<Rightarrow> (nat \<times> nat) list \<Rightarrow> event list \<times> exn option" where
  "detect_loop E t [] = (t, Some (USBNotFoundError ''No supported USB printer found''))"
| "detect_loop E t ((v, p) # vs) =
     (case device E t (Usb v p) of
        None \<Rightarrow>
          (t @ [Usb v p,
                Log INFO (''Found printer with vendor '' @ hex04 v @ '', product '' @ hex04 p)],
           None)
      | Some (USBNotFoundError m) \<Rightarrow> detect_loop E (t @ [Usb v p]) vs
      | Some e \<Rightarrow> (t @ [Usb v p], Some e))"

definition detect_printer :: "env \<Rightarrow> event list \<Rightarrow> event list \<times> exn option" where
  "detect_printer E t = detect_loop E t printer_vendors"

section \<open>Image generation\<close>

definition generate_barcode :: "env \<Rightarrow> string \<Rightarrow> exn + raster" where
  "generate_barcode E number = code128 E number"

definition generate_qr_code :: "env \<Rightarrow> string \<Rightarrow> exn + raster" where
  "generate_qr_code E url = qr_png E url"

section \<open>\<open>print_invoice\<close>\<close>

subsection \<open>The statements of the \<open>try\<close> block\<close>

text \<open>
  Each statement of the block either raises while it evaluates its argument
  (\<open>Inl\<close>: a missing key, a number that cannot be formatted, an image that cannot
  be generated) or makes one call on the printer (\<open>Inr\<close>).
\<close>

type_synonym step = "exn + cmd"

definition text_step :: "string \<Rightarrow> step" where
  "text_step s = Inr (Text s)"

definition divider :: step where
  "divider = text_step (replicate 32 CHR ''-'' @ nl)"

text \<open>\<open>data.get(key, default)\<close> and \<open>data[key]\<close>.\<close>

definition get_or :: "'a option \<Rightarrow> 'a \<Rightarrow> 'a" where
  "get_or v d = (case v of None \<Rightarrow> d | Some x \<Rightarrow> x)"

definition subscript :: "string \<Rightarrow> 'a option \<Rightarrow> ('a \<Rightarrow> step) \<Rightarrow> step" where
  "subscript key v k = (case v of None \<Rightarrow> Inl (KeyError key) | Some x \<Rightarrow> k x)"

text \<open>Truth value of \<open>data.get(key)\<close> for a string field: absent and empty are false.\<close>

definition truthy :: "string option \<Rightarrow> bool" where
  "truthy v = (case v of None \<Rightarrow> False | Some s \<Rightarrow> s \<noteq> [])"

definition name_parts :: "string \<Rightarrow> string list" where
  "name_parts s = map (\<lambda>k. take 20 (drop (20 * k) s)) [0 ..< (length s + 19) div 20]"

definition item_row :: "item \<Rightarrow> nat \<times> string \<Rightarrow> step" where
  "item_row it ip =
     (case ip of (i, part) \<Rightarrow>
        if i = 0 then
          and_then (fmt_2f (quantity it)) (\<lambda>q.
          and_then (fmt_2f (price it)) (\<lambda>p.
          and_then (pymul (quantity it) (price it)) (\<lambda>x.
          and_then (fmt_2f x) (\<lambda>tot.
            text_step (ljust 20 part @ rjust 4 q @ rjust 8 p @ rjust 8 tot @ nl)))))
        else text_step (ljust 20 part @ nl))"

definition item_rows :: "item \<Rightarrow> step list" where
  "item_rows it = map (item_row it) (enumerate 0 (name_parts (name it)))"

definition header_block :: "invoice \<Rightarrow> step list" where
  "header_block data =
     [Inr (SetStyle (Some AlignCenter) (Some True)),
      text_step (get_or (company_name data) default_company_name @ nl),
      Inr (SetStyle None (Some False))]
     @ map (\<lambda>number. text_step (number @ nl))
         (get_or (phone_numbers data) default_company_phones)
     @ [text_step (get_or (address data) default_company_address @ nl),
        text_step (''GSTIN: '' @ get_or (gstin data) default_company_gstin @ nl),
        divider]"

definition info_block :: "invoice \<Rightarrow> step list" where
  "info_block data =
     [Inr (SetStyle (Some AlignLeft) None),
      subscript ''invoice_number'' (invoice_number data)
        (\<lambda>n. text_step (''Invoice #: '' @ n @ nl)),
      subscript ''invoice_date'' (invoice_date data)
        (\<lambda>d. text_step (''Date: '' @ d @ nl))]
     @ (if truthy (invoice_time data)
        then [subscript ''invoice_time'' (invoice_time data)
                (\<lambda>t. text_step (''Time: '' @ t @ nl))]
        else [])
     @ [subscript ''customer_name'' (customer_name data)
          (\<lambda>c. text_step (''Customer: '' @ c @ nl)),
        divider]"

definition items_block :: "invoice \<Rightarrow> step list" where
  "items_block data =
     text_step (ljust 20 ''Item'' @ rjust 4 ''Qty'' @ rjust 8 ''Price'' @ rjust 8 ''Total'' @ nl)
     # (case items data of
          None \<Rightarrow> [Inl (KeyError ''items'')]
        | Some its \<Rightarrow> concat (map item_rows its))
     @ [divider]"

definition totals_block :: "invoice \<Rightarrow> step list" where
  "totals_block data =
     [subscript ''subtotal'' (subtotal data)
        (\<lambda>x. and_then (fmt_2f x)
           (\<lambda>s. text_step (ljust 20 ''Subtotal:'' @ rjust 12 s @ nl))),
      and_then (fmt_2f (get_or (discount data) (PFloat (PyFloat False 0 0))))
        (\<lambda>s. text_step (ljust 20 ''Discount:'' @ rjust 12 s @ nl)),
      Inr (SetStyle None (Some True)),
      subscript ''total'' (total' data)
        (\<lambda>x. and_then (fmt_2f x)
           (\<lambda>s. text_step (ljust 20 ''GRAND TOTAL:'' @ rjust 12 s @ nl))),
      Inr (SetStyle None (Some False)),
      divider]"

definition terms :: "string list" where
  "terms =
     [''* NO REFUND.'',
      ''* Returns accepted within 7 days with receipt.'',
      ''* No Product Will Be Replaced Without Bill.'',
      ''* Please Check Your Bill Before Leaving The Shop.'']"

definition terms_block :: "invoice \<Rightarrow> step list" where
  "terms_block data =
     map (\<lambda>term. text_step (term @ nl)) terms
     @ [divider,
        Inr (SetStyle (Some AlignCenter) None),
        subscript ''invoice_number'' (invoice_number data) (\<lambda>n. text_step (n @ nl)),
        divider]"

definition image_step :: "exn + raster \<Rightarrow> step" where
  "image_step r = (case r of Inl e \<Rightarrow> Inl e | Inr img \<Rightarrow> Inr (Image img))"

definition images_block :: "env \<Rightarrow> invoice \<Rightarrow> step list" where
  "images_block E data =
     [subscript ''invoice_number'' (invoice_number data)
        (\<lambda>n. image_step (generate_barcode E n)),
      text_step nl,
      image_step (generate_qr_code E (get_or (website_url data) default_company_website)),
      text_step nl]"

definition footer_block :: "step list" where
  "footer_block =
     [Inr (SetStyle (Some AlignCenter) None),
      text_step (''ENJOY FROM EVERYWHERE'' @ nl),
      text_step (''THANK YOU FOR WATCHING!'' @ nl),
      Inr Cut]"

definition try_block :: "env \<Rightarrow> invoice \<Rightarrow> step list" where
  "try_block E data =
     header_block data @ info_block data @ items_block data @ totals_block data
     @ terms_block data @ images_block E data @ footer_block"

subsection \<open>Running the block on the printer\<close>

text \<open>
  The statements run in order until one raises: while evaluating its argument,
  or in the call on the printer (the call is then part of the events).
\<close>

fun run_steps :: "env \<Rightarrow> event list \<Rightarrow> step list \<Rightarrow> event list \<times> exn option" where
  "run_steps E t [] = (t, None)"
| "run_steps E t (Inl e # rest) = (t, Some e)"
| "run_steps E t (Inr c # rest) =
     (case device E t (Cmd c) of
        Some e \<Rightarrow> (t @ [Cmd c], Some e)
      | None \<Rightarrow> run_steps E (t @ [Cmd c]) rest)"

text \<open>
  \<open>try: ... return True, ... except Exception as e: ... return False, str(e)\<close>:
  the value the function is about to return when the \<open>finally\<close> clause starts.
\<close>

definition print_body :: "env \<Rightarrow> event list \<Rightarrow> invoice \<Rightarrow> event list \<times> (bool \<times> string)" where
  "print_body E t data =
     (case run_steps E t (try_block E data) of
        (t1, None) \<Rightarrow> (t1, (True, ''Invoice printed successfully''))
      | (t1, Some e) \<Rightarrow>
          (t1 @ [Log ERROR (''Printing failed: '' @ str_exn E e)], (False, str_exn E e)))"

text \<open>
  \<open>finally: printer.close()\<close>: an exception raised by \<open>close\<close> replaces the pending
  return value.
\<close>

definition finally_close ::
    "env \<Rightarrow> event list \<times> (bool \<times> string) \<Rightarrow> event list \<times> (bool \<times> string) outcome" where
  "finally_close E tr =
     (case tr of (t, r) \<Rightarrow>
        (case device E t Close of
           None \<Rightarrow> (t @ [Close], Returned r)
         | Some e \<Rightarrow> (t @ [Close], Raised e)))"

definition print_invoice ::
    "env \<Rightarrow> event list \<Rightarrow> invoice \<Rightarrow> event list \<times> (bool \<times> string) outcome" where
  "print_invoice E t data =
     (case detect_printer E t of
        (t1, Some (USBNotFoundError m)) \<Rightarrow>
          (t1 @ [Log ERROR (''Printer detection failed: ''
                            @ str_exn E (USBNotFoundError m))],
           Returned (False, str_exn E (USBNotFoundError m)))
      | (t1, Some e) \<Rightarrow> (t1, Raised e)
      | (t1, None) \<Rightarrow> finally_close E (print_body E t1 data))"

section \<open>The \<open>/print\<close> endpoint\<close>

record request =
  authorization :: "string option"
  is_json :: bool
  json :: invoice

record response =
  success :: bool
  message :: string
  status_code :: nat

definition pystr_opt :: "string option \<Rightarrow> string" where
  "pystr_opt v = (case v of None \<Rightarrow> ''None'' | Some s \<Rightarrow> s)"

definition validate_token :: "env \<Rightarrow> event list \<Rightarrow> request \<Rightarrow> event list \<times> bool" where
  "validate_token E t req =
     (let auth_header = authorization req;
          expected_token = ''Bearer '' @ auth_token E;
          t1 = t @ [Log DEBUG (''Expected token: '' @ expected_token),
                    Log DEBUG (''Received token: '' @ pystr_opt auth_header)]
      in if \<not> truthy auth_header \<or> auth_header \<noteq> Some expected_token then
           (t1 @ [Log WARNING (''Unauthorized access attempt. Expected: '' @ expected_token
                               @ '', Got: '' @ pystr_opt auth_header)],
            False)
         else (t1, True))"

definition required_fields :: "string list" where
  "required_fields =
     [''invoice_number'', ''invoice_date'', ''customer_name'', ''items'', ''subtotal'', ''total'']"

definition handle_print :: "env \<Rightarrow> event list \<Rightarrow> request \<Rightarrow> event list \<times> response outcome" where
  "handle_print E t req =
     (case validate_token E t req of
        (t1, False) \<Rightarrow>
          (t1, Returned \<lparr>success = False, message = ''Unauthorized'', status_code = 401\<rparr>)
      | (t1, True) \<Rightarrow>
          if \<not> is_json req then
            (t1, Returned \<lparr>success = False, message = ''Request must be JSON'',
                           status_code = 400\<rparr>)
          else
            (case find (\<lambda>field. \<not> has_field (json req) field) required_fields of
               Some field \<Rightarrow>
                 (t1, Returned \<lparr>success = False,
                                message = ''Missing required field: '' @ field,
                                status_code = 400\<rparr>)
             | None \<Rightarrow>
                 (case print_invoice E t1 (json req) of
                    (t2, Returned (ok, msg)) \<Rightarrow>
                      (t2, Returned \<lparr>success = ok, message = msg,
                                     status_code = (if ok then 200 else 500)\<rparr>)
                  | (t2, Raised e) \<Rightarrow> (t2, Raised e))))"

section \<open>Example inputs\<close>

text \<open>A printer on which every call succeeds, and image libraries that return an image.\<close>

definition ok_env :: env where
  "ok_env =
     \<lparr>device = (\<lambda>t e. None),
      usb_not_found_str = (\<lambda>m. ''USB device not found''),
      code128 = (\<lambda>s. Inr [[True]]),
      qr_png = (\<lambda>s. Inr [[False]]),
      auth_token = ''your-secret-token-here''\<rparr>"

definition shirt_invoice :: invoice where
  "shirt_invoice =
     \<lparr>company_name = None, phone_numbers = None, address = None, gstin = None,
      website_url = None,
      invoice_number = Some ''INV-1001'', invoice_date = Some ''2024-01-01'',
      invoice_time = None, customer_name = Some ''Jane'',
      items = Some [\<lparr>name = ''Shirt'', quantity = PInt 2,
                      price = PFloat (PyFloat False 500 0)\<rparr>],
      subtotal = Some (PFloat (PyFloat False 1000 0)), discount = None,
      total' = Some (PFloat (PyFloat False 1000 0))\<rparr>"


text \<open>An item without a name.\<close>

definition blank_item :: item where
  "blank_item = \<lparr>name = '''', quantity = PInt 1, price = PFloat (PyFloat False 250 0)\<rparr>"

definition blank_invoice :: invoice where
  "blank_invoice = shirt_invoice\<lparr>items := Some [blank_item]\<rparr>"

text \<open>Printers that fail: on an image, on \<open>close()\<close>, on opening, or by being absent.\<close>

definition jam_env :: env where
  "jam_env = ok_env\<lparr>device :=
     (\<lambda>t e. case e of Cmd (Image img) \<Rightarrow> Some (Error ''USB write timed out'') | _ \<Rightarrow> None)\<rparr>"

definition close_fails_env :: env where
  "close_fails_env = ok_env\<lparr>device :=
     (\<lambda>t e. case e of Close \<Rightarrow> Some (Error ''USB device disconnected'') | _ \<Rightarrow> None)\<rparr>"

definition busy_env :: env where
  "busy_env = ok_env\<lparr>device :=
     (\<lambda>t e. case e of Usb v p \<Rightarrow> Some (Error ''Access denied (insufficient permissions)'')
              | _ \<Rightarrow> None)\<rparr>"

definition absent_env :: env where
  "absent_env = ok_env\<lparr>device :=
     (\<lambda>t e. case e of Usb v p \<Rightarrow> Some (USBNotFoundError ''Device not found'')
              | _ \<Rightarrow> None)\<rparr>"

text \<open>Requests whose body lacks required fields.\<close>

definition no_customer_request :: request where
  "no_customer_request =
     \<lparr>authorization = Some ''Bearer your-secret-token-here'', is_json = True,
      json = shirt_invoice\<lparr>customer_name := None\<rparr>\<rparr>"

definition unauthorized_request :: request where
  "unauthorized_request = no_customer_request\<lparr>authorization := None\<rparr>"

definition two_missing_request :: request where
  "two_missing_request =
     no_customer_request\<lparr>json := shirt_invoice\<lparr>invoice_number := None, total' := None\<rparr>\<rparr>"

text \<open>The invoice INV-1001 with a time, and with an empty time.\<close>

definition timed_invoice :: invoice where
  "timed_invoice = shirt_invoice\<lparr>invoice_time := Some ''10:30''\<rparr>"

definition empty_time_invoice :: invoice where
  "empty_time_invoice = shirt_invoice\<lparr>invoice_time := Some ''''\<rparr>"





section \<open>Numbers and their format\<close>

declare show_nat.simps [simp del] show_hex.simps [simp del] bitlen_nat.simps [simp del]

lemma replicate_numeral: "replicate (numeral k) x = x # replicate (pred_numeral k) x"
  by (simp add: numeral_eq_Suc)

lemmas num_eval = fmt_2f_def fmt_float_def fixed2_def hundredths_def pymul_def to_float_def
  int_to_float_def and_then_def round_double_def round_shift_def bitlen_nat.simps show_nat.simps
  digit_def Let_def

lemma fmt_2f_values:
  "fmt_2f (PInt 2) = Inr ''2.00''"
  "fmt_2f (PFloat (PyFloat False 500 0)) = Inr ''500.00''"
  "pymul (PInt 2) (PFloat (PyFloat False 500 0)) = Inr (PFloat (PyFloat False 1000 0))"
  "fmt_2f (PFloat (PyFloat False 1000 0)) = Inr ''1000.00''"
  "fmt_2f (PFloat (PyFloat False 0 0)) = Inr ''0.00''"
  "fmt_2f (PInt 1) = Inr ''1.00''"
  "fmt_2f (PFloat (PyFloat False 250 0)) = Inr ''250.00''"
  by (simp_all add: num_eval)

lemma bitlen_nat_bounds: "n \<noteq> 0 \<Longrightarrow> 2 ^ (bitlen_nat n - 1) \<le> n \<and> n < 2 ^ bitlen_nat n"
proof (induction n rule: bitlen_nat.induct)
  case (1 n)
  show ?case
  proof (cases "n div 2 = 0")
    case True
    with "1.prems" have "n = 1" by (cases n) auto
    then show ?thesis by (simp add: bitlen_nat.simps)
  next
    case False
    with "1.IH" "1.prems" have ih: "2 ^ (bitlen_nat (n div 2) - 1) \<le> n div 2"
      "n div 2 < 2 ^ bitlen_nat (n div 2)" by auto
    have pos: "0 < bitlen_nat (n div 2)" using False by (simp add: bitlen_nat.simps)
    have b: "bitlen_nat n = Suc (bitlen_nat (n div 2))"
      using "1.prems" by (simp add: bitlen_nat.simps)
    have p: "(2::nat) ^ bitlen_nat (n div 2) = 2 * 2 ^ (bitlen_nat (n div 2) - 1)"
      using pos by (cases "bitlen_nat (n div 2)") auto
    have lo: "2 * (n div 2) \<le> n" and hi: "n < 2 * (n div 2) + 2" by arith+
    have "(2::nat) ^ (bitlen_nat n - 1) = 2 ^ bitlen_nat (n div 2)" by (simp add: b)
    also have "\<dots> \<le> 2 * (n div 2)" using ih(1) p by simp
    finally have "2 ^ (bitlen_nat n - 1) \<le> n" using lo by linarith
    moreover have "n < 2 ^ bitlen_nat n"
    proof -
      have "n div 2 + 1 \<le> 2 ^ bitlen_nat (n div 2)" using ih(2) by simp
      then have "2 * (n div 2) + 2 \<le> 2 * 2 ^ bitlen_nat (n div 2)" by simp
      then show ?thesis using hi by (simp add: b)
    qed
    ultimately show ?thesis by blast
  qed
qed

lemma bitlen_nat_eqI: "2 ^ k \<le> n \<Longrightarrow> n < 2 ^ Suc k \<Longrightarrow> bitlen_nat n = Suc k"
proof -
  assume a: "2 ^ k \<le> n" "n < 2 ^ Suc k"
  then have n: "n \<noteq> 0" by auto
  from bitlen_nat_bounds [OF n] have b: "2 ^ (bitlen_nat n - 1) \<le> n" "n < 2 ^ bitlen_nat n"
    by auto
  have "2 ^ k < (2::nat) ^ bitlen_nat n" using a(1) b(2) by linarith
  then have 1: "k < bitlen_nat n" by (simp add: power_strict_increasing_iff)
  have "2 ^ (bitlen_nat n - 1) < (2::nat) ^ Suc k" using a(2) b(1) by linarith
  then have 2: "bitlen_nat n - 1 < Suc k" by (simp only: power_strict_increasing_iff rel_simps)
  from 1 2 show ?thesis by linarith
qed








section \<open>Item rows\<close>

lemmas layout_defs = try_block_def header_block_def info_block_def items_block_def
  totals_block_def terms_block_def images_block_def footer_block_def


lemma enumerate_map_upt: "enumerate 0 (map f [0..<n]) = map (\<lambda>k. (k, f k)) [0..<n]"
  by (simp add: enumerate_eq_zip zip_map2 zip_same_conv_map)

lemma item_rows_upt:
  "item_rows it =
     map (\<lambda>k. item_row it (k, take 20 (drop (20 * k) (name it))))
       [0..<(length (name it) + 19) div 20]"
  by (simp add: item_rows_def name_parts_def enumerate_map_upt o_def)





section \<open>Jobs on which nothing raises\<close>

lemma run_steps_all_ok:
  assumes "\<And>t c. device E t (Cmd c) = None"
  shows "run_steps E t (map Inr cs) = (t @ map Cmd cs, None)"
  using assms by (induction cs arbitrary: t) simp_all

lemma map_Inr_projr: "\<forall>s\<in>set xs. \<not> isl s \<Longrightarrow> map Inr (map projr xs) = xs"
  by (induction xs) auto

lemmas detect_eval = detect_printer_def printer_vendors_def hex04_def show_hex.simps
  digit_def pad_def Let_def

lemma detect_printer_first:
  "device E t (Usb 0x0483 0x5743) = None \<Longrightarrow>
   detect_printer E t =
     (t @ [Usb 0x0483 0x5743, Log INFO ''Found printer with vendor 0483, product 5743''], None)"
  by (simp add: detect_eval)

lemmas company_defs = default_company_name_def default_company_phones_def
  default_company_address_def default_company_gstin_def default_company_website_def

lemma print_body_ok:
  assumes dev: "\<And>t c. device E t (Cmd c) = None"
    and steps: "\<forall>s\<in>set (try_block E data). \<not> isl s"
  shows "print_body E t data =
     (t @ map (Cmd \<circ> projr) (try_block E data), (True, ''Invoice printed successfully''))"
proof -
  have "map Inr (map projr (try_block E data)) = try_block E data"
    using steps by (rule map_Inr_projr)
  then have "run_steps E t (try_block E data)
      = (t @ map Cmd (map projr (try_block E data)), None)"
    using run_steps_all_ok [of E t "map projr (try_block E data)"] dev by simp
  then show ?thesis by (simp add: print_body_def)
qed

lemma print_invoice_ok:
  assumes dev: "\<And>t e. device E t e = None"
    and steps: "\<forall>s\<in>set (try_block E data). \<not> isl s"
  shows "print_invoice E t data =
     (t @ [Usb 0x0483 0x5743, Log INFO ''Found printer with vendor 0483, product 5743'']
        @ map (Cmd \<circ> projr) (try_block E data) @ [Close],
      Returned (True, ''Invoice printed successfully''))"
  by (simp add: print_invoice_def detect_printer_first dev print_body_ok [OF dev steps]
      finally_close_def)

lemmas text_eval = text_step_def divider_def subscript_def image_step_def and_then_def
  generate_barcode_def generate_qr_code_def truthy_def get_or_def terms_def
  pad_def ljust_def rjust_def nl_def replicate_numeral fmt_2f_values




lemma shirt_rows:
  "item_rows \<lparr>name = ''Shirt'', quantity = PInt 2, price = PFloat (PyFloat False 500 0)\<rparr>
     = [Inr (Text ''Shirt               2.00  500.00 1000.00\<newline>'')]"
  by (simp add: item_rows_upt item_row_def upt_rec text_eval)

lemma shirt_steps_ok:
  assumes "code128 E ''INV-1001'' = Inr bimg"
    and "qr_png E ''https://stagmenfashion.com'' = Inr qimg"
  shows "\<forall>s\<in>set (try_block E shirt_invoice). \<not> isl s"
  using assms
  by (simp add: shirt_invoice_def layout_defs shirt_rows text_eval company_defs)

lemma concat_item_rows_removeAll:
  "item_rows it = [] \<Longrightarrow> concat (map item_rows (removeAll it its)) = concat (map item_rows its)"
  by (induction its) auto

text \<open>
  C10.  An item whose name is the empty string produces no row at all: its
  quantity, price and line total are not printed.  The statements of the job are
  those of the invoice without the item, so the job leaves the events and the result
  that the invoice without the item leaves; when no statement of the job raises while
  it evaluates its argument and every call on the printer succeeds, that result is
  success.
\<close>

theorem item_rows_empty_name:
  assumes "name it = []"
    and "items data = Some its" and "it \<in> set its"
    and dev: "\<And>t e. device E t e = None"
    and steps: "\<forall>s\<in>set (try_block E data). \<not> isl s"
  shows "item_rows it = []
    \<and> try_block E data = try_block E (data\<lparr>items := Some (removeAll it its)\<rparr>)
    \<and> print_invoice E t data = print_invoice E t (data\<lparr>items := Some (removeAll it its)\<rparr>)
    \<and> snd (print_invoice E t data) = Returned (True, ''Invoice printed successfully'')"
proof -
  have e: "item_rows it = []"
    using assms(1) by (simp add: item_rows_def name_parts_def)
  have tb: "try_block E data = try_block E (data\<lparr>items := Some (removeAll it its)\<rparr>)"
    using assms(2) concat_item_rows_removeAll [OF e, of its] by (simp add: layout_defs)
  have "print_invoice E t data = print_invoice E t (data\<lparr>items := Some (removeAll it its)\<rparr>)"
    by (simp add: print_invoice_def print_body_def tb cong: prod.case_cong option.case_cong)
  moreover have "snd (print_invoice E t data) = Returned (True, ''Invoice printed successfully'')"
    by (simp add: print_invoice_ok [OF dev steps])
  ultimately show ?thesis using e tb by simp
qed

lemma blank_steps_ok: "\<forall>s\<in>set (try_block ok_env blank_invoice). \<not> isl s"
proof -
  have "item_rows blank_item = []"
    by (simp add: item_rows_def name_parts_def blank_item_def)
  then show ?thesis
    by (simp add: blank_invoice_def shirt_invoice_def ok_env_def layout_defs text_eval
        company_defs)
qed

theorem item_rows_empty_name_witness:
  "name blank_item = [] \<and> items blank_invoice = Some [blank_item]
   \<and> item_rows blank_item = []
   \<and> snd (print_invoice ok_env [] blank_invoice) = Returned (True, ''Invoice printed successfully'')"
proof -
  have a: "name blank_item = []" by (simp add: blank_item_def)
  have b: "items blank_invoice = Some [blank_item]"
    by (simp add: blank_invoice_def shirt_invoice_def)
  have c: "blank_item \<in> set [blank_item]" by simp
  have d: "device ok_env t e = None" for t e by (simp add: ok_env_def)
  from item_rows_empty_name [OF a b c d blank_steps_ok, of "[]"]
  have "item_rows blank_item = []
    \<and> snd (print_invoice ok_env [] blank_invoice)
        = Returned (True, ''Invoice printed successfully'')"
    by blast
  then show ?thesis using a b by simp
qed

section \<open>The invoice INV-1001\<close>

lemma shirt_items_block:
  "Inr (Text ''Shirt               2.00  500.00 1000.00\<newline>'') \<in> set (items_block shirt_invoice)"
  by (simp add: items_block_def shirt_invoice_def shirt_rows)

text \<open>
  C8.  The invoice INV-1001 (one item "Shirt", quantity 2, price 500.00, subtotal and
  total 1000.00, no optional field), on a printer where every call succeeds and with
  image libraries that return an image: the job returns
  \<open>(True, "Invoice printed successfully")\<close>, the text row of the item is the name
  left-aligned in 20 columns followed by \<open>2.00\<close> in 4 columns, \<open>500.00\<close> in 8 and
  \<open>1000.00\<close> in 8 (40 characters and a newline), and the last call on the printer is
  \<open>cut()\<close>, followed only by \<open>close()\<close>.
\<close>

theorem shirt_invoice_printed:
  assumes "\<And>t e. device E t e = None"
    and "code128 E ''INV-1001'' = Inr bimg"
    and "qr_png E ''https://stagmenfashion.com'' = Inr qimg"
  shows "snd (print_invoice E [] shirt_invoice) = Returned (True, ''Invoice printed successfully'')
    \<and> Cmd (Text ''Shirt               2.00  500.00 1000.00\<newline>'')
        \<in> set (fst (print_invoice E [] shirt_invoice))
    \<and> (\<exists>pre. fst (print_invoice E [] shirt_invoice) = pre @ [Cmd Cut, Close])"
proof -
  have q: "qr_png E (get_or (website_url shirt_invoice) default_company_website) = Inr qimg"
    using assms(3) by (simp add: shirt_invoice_def get_or_def default_company_website_def)
  have p: "print_invoice E [] shirt_invoice =
     ([] @ [Usb 0x0483 0x5743, Log INFO ''Found printer with vendor 0483, product 5743'']
        @ map (Cmd \<circ> projr) (try_block E shirt_invoice) @ [Close],
      Returned (True, ''Invoice printed successfully''))"
    by (rule print_invoice_ok [OF assms(1) shirt_steps_ok [OF assms(2) assms(3)]])
  have "Inr (Text ''Shirt               2.00  500.00 1000.00\<newline>'')
      \<in> set (try_block E shirt_invoice)"
    using shirt_items_block by (simp add: try_block_def)
  then have m: "Cmd (Text ''Shirt               2.00  500.00 1000.00\<newline>'')
      \<in> set (map (Cmd \<circ> projr) (try_block E shirt_invoice))"
    by force
  have "\<exists>xs. try_block E shirt_invoice = xs @ [Inr Cut]"
    by (simp add: try_block_def footer_block_def)
  then obtain xs where xs: "try_block E shirt_invoice = xs @ [Inr Cut]" ..
  have l: "fst (print_invoice E [] shirt_invoice) =
      ([Usb 0x0483 0x5743, Log INFO ''Found printer with vendor 0483, product 5743'']
        @ map (Cmd \<circ> projr) xs) @ [Cmd Cut, Close]"
    by (simp add: p xs)
  have c1: "snd (print_invoice E [] shirt_invoice)
      = Returned (True, ''Invoice printed successfully'')"
    by (simp add: p)
  have c2: "Cmd (Text ''Shirt               2.00  500.00 1000.00\<newline>'')
      \<in> set (fst (print_invoice E [] shirt_invoice))"
    using m by (simp add: p)
  have c3: "\<exists>pre. fst (print_invoice E [] shirt_invoice) = pre @ [Cmd Cut, Close]"
    using l by blast
  show ?thesis using c1 c2 c3 by blast
qed

theorem shirt_invoice_printed_witness:
  "snd (print_invoice ok_env [] shirt_invoice) = Returned (True, ''Invoice printed successfully'')
   \<and> Cmd (Text ''Shirt               2.00  500.00 1000.00\<newline>'')
       \<in> set (fst (print_invoice ok_env [] shirt_invoice))"
  using shirt_invoice_printed [of ok_env "[[True]]" "[[False]]"] by (simp add: ok_env_def)

text \<open>
  The row as the specification prints it, with 17 spaces between the name and the
  quantity (42 characters), is not among the calls of that job.
\<close>

theorem shirt_row_of_claim_not_printed:
  "Cmd (Text ''Shirt                 2.00  500.00 1000.00\<newline>'')
     \<notin> set (fst (print_invoice ok_env [] shirt_invoice))"
proof -
  have "print_invoice ok_env [] shirt_invoice =
     ([] @ [Usb 0x0483 0x5743, Log INFO ''Found printer with vendor 0483, product 5743'']
        @ map (Cmd \<circ> projr) (try_block ok_env shirt_invoice) @ [Close],
      Returned (True, ''Invoice printed successfully''))"
    by (rule print_invoice_ok [OF _ shirt_steps_ok [where bimg = "[[True]]" and qimg = "[[False]]"]])
       (simp_all add: ok_env_def)
  then show ?thesis
    by (simp add: shirt_invoice_def ok_env_def layout_defs shirt_rows text_eval company_defs)
qed

section \<open>Failures and the release of the printer\<close>

lemma run_steps_trace: "\<exists>cs. fst (run_steps E t steps) = t @ map Cmd cs"
proof (induction steps arbitrary: t)
  case Nil
  have "fst (run_steps E t []) = t @ map Cmd []" by simp
  then show ?case by blast
next
  case (Cons s steps)
  show ?case
  proof (cases s)
    case (Inl e)
    then have "fst (run_steps E t (s # steps)) = t @ map Cmd []" by simp
    then show ?thesis by blast
  next
    case (Inr c)
    show ?thesis
    proof (cases "device E t (Cmd c)")
      case None
      from Cons.IH [of "t @ [Cmd c]"] obtain cs
        where "fst (run_steps E (t @ [Cmd c]) steps) = (t @ [Cmd c]) @ map Cmd cs" ..
      with Inr None have "fst (run_steps E t (s # steps)) = t @ map Cmd (c # cs)" by simp
      then show ?thesis by blast
    next
      case (Some e)
      with Inr have "fst (run_steps E t (s # steps)) = t @ map Cmd [c]" by simp
      then show ?thesis by blast
    qed
  qed
qed

lemma detect_loop_trace:
  "\<exists>us. fst (detect_loop E t vs) = t @ us \<and> Close \<notin> set us \<and> (\<forall>c. Cmd c \<notin> set us)"
proof (induction vs arbitrary: t)
  case Nil
  show ?case by simp
next
  case (Cons vp vs)
  obtain v p where vp: "vp = (v, p)" by (cases vp)
  show ?case
  proof (cases "device E t (Usb v p)")
    case None
    then show ?thesis by (simp add: vp)
  next
    case (Some e)
    show ?thesis
    proof (cases e)
      case (USBNotFoundError m)
      from Cons.IH [of "t @ [Usb v p]"] obtain us
        where "fst (detect_loop E (t @ [Usb v p]) vs) = (t @ [Usb v p]) @ us"
          and "Close \<notin> set us" and "\<forall>c. Cmd c \<notin> set us" by blast
      then have "fst (detect_loop E t (vp # vs)) = t @ (Usb v p # us)
          \<and> Close \<notin> set (Usb v p # us) \<and> (\<forall>c. Cmd c \<notin> set (Usb v p # us))"
        using Some USBNotFoundError by (simp add: vp)
      then show ?thesis by blast
    next
      case (KeyError k)
      then show ?thesis using Some by (simp add: vp)
    next
      case (Error s)
      then show ?thesis using Some by (simp add: vp)
    qed
  qed
qed


lemma jam_detect:
  "detect_printer jam_env [] =
     ([Usb 0x0483 0x5743, Log INFO ''Found printer with vendor 0483, product 5743''], None)"
  using detect_printer_first [of jam_env "[]"] by (simp add: jam_env_def)

lemma jam_run:
  "snd (run_steps jam_env
          [Usb 0x0483 0x5743, Log INFO ''Found printer with vendor 0483, product 5743'']
          (try_block jam_env shirt_invoice))
     = Some (Error ''USB write timed out'')"
  by (simp add: jam_env_def shirt_invoice_def ok_env_def layout_defs shirt_rows text_eval
      company_defs)

lemma close_fails_detect:
  "detect_printer close_fails_env [] =
     ([Usb 0x0483 0x5743, Log INFO ''Found printer with vendor 0483, product 5743''], None)"
  using detect_printer_first [of close_fails_env "[]"] by (simp add: close_fails_env_def)

lemma close_fails_body:
  "print_body close_fails_env t shirt_invoice =
     (t @ map (Cmd \<circ> projr) (try_block close_fails_env shirt_invoice),
      (True, ''Invoice printed successfully''))"
  by (rule print_body_ok [OF _ shirt_steps_ok [where bimg = "[[True]]" and qimg = "[[False]]"]])
     (simp_all add: close_fails_env_def ok_env_def)

text \<open>
  C2.  When the printer has been located and a statement of the \<open>try\<close> block raises
  (in a call on the printer, the image calls included, or while it evaluates its
  argument), the events of the job end with the log entry of the failure followed by
  \<open>close()\<close>; \<open>close()\<close> is called nowhere else in the job, so exactly once and last;
  and when \<open>close()\<close> returns, the caller receives \<open>(False, str(e))\<close>.
\<close>

theorem close_once_after_failed_step:
  assumes located: "detect_printer E t = (t1, None)"
    and failing: "run_steps E t1 (try_block E data) = (t2, Some e)"
  shows "fst (print_invoice E t data)
      = t2 @ [Log ERROR (''Printing failed: '' @ str_exn E e), Close]
    \<and> (\<exists>pre. t2 = t @ pre \<and> Close \<notin> set pre)
    \<and> (device E (t2 @ [Log ERROR (''Printing failed: '' @ str_exn E e)]) Close = None
        \<longrightarrow> snd (print_invoice E t data) = Returned (False, str_exn E e))"
proof -
  have body: "print_body E t1 data
      = (t2 @ [Log ERROR (''Printing failed: '' @ str_exn E e)], (False, str_exn E e))"
    by (simp add: print_body_def failing)
  have pi: "print_invoice E t data = finally_close E (print_body E t1 data)"
    by (simp add: print_invoice_def located)
  have tr: "fst (print_invoice E t data)
      = t2 @ [Log ERROR (''Printing failed: '' @ str_exn E e), Close]"
    by (simp add: pi body finally_close_def split: option.split)
  obtain us where us: "t1 = t @ us" "Close \<notin> set us" "\<forall>c. Cmd c \<notin> set us"
    using detect_loop_trace [of E t printer_vendors] located
    by (auto simp: detect_printer_def)
  obtain cs where cs: "t2 = t1 @ map Cmd cs"
    using run_steps_trace [of E t1 "try_block E data"] failing by auto
  have "t2 = t @ (us @ map Cmd cs) \<and> Close \<notin> set (us @ map Cmd cs)"
    using us cs by auto
  then have ex: "\<exists>pre. t2 = t @ pre \<and> Close \<notin> set pre" by blast
  have ret: "device E (t2 @ [Log ERROR (''Printing failed: '' @ str_exn E e)]) Close = None
        \<longrightarrow> snd (print_invoice E t data) = Returned (False, str_exn E e)"
    by (simp add: pi body finally_close_def)
  show ?thesis using tr ex ret by blast
qed

theorem close_once_after_failed_step_witness:
  "snd (detect_printer jam_env []) = None
   \<and> snd (print_invoice jam_env [] shirt_invoice) = Returned (False, ''USB write timed out'')
   \<and> last (fst (print_invoice jam_env [] shirt_invoice)) = Close"
proof -
  obtain t2 where run: "run_steps jam_env
          [Usb 0x0483 0x5743, Log INFO ''Found printer with vendor 0483, product 5743'']
          (try_block jam_env shirt_invoice) = (t2, Some (Error ''USB write timed out''))"
    using jam_run by (metis prod.collapse)
  have c: "device jam_env t Close = None" for t by (simp add: jam_env_def)
  show ?thesis
    using close_once_after_failed_step [OF jam_detect run] c
    by (simp add: jam_detect str_exn_def)
qed

text \<open>
  C3, as the code has it.  With the printer located, let \<open>r\<close> be the pair the \<open>try\<close>
  statement is about to return.  If \<open>close()\<close> raises \<open>e\<close>, the call raises \<open>e\<close> in place
  of \<open>r\<close>, and \<open>close()\<close> is the last event: nothing is logged for it.  If \<open>close()\<close>
  returns, \<open>r\<close> is returned unchanged.
\<close>

theorem close_error_replaces_result:
  assumes located: "snd (detect_printer E t) = None"
    and body: "print_body E (fst (detect_printer E t)) data = (tb, r)"
  shows "(\<forall>e. device E tb Close = Some e
            \<longrightarrow> print_invoice E t data = (tb @ [Close], Raised e))
    \<and> (device E tb Close = None \<longrightarrow> print_invoice E t data = (tb @ [Close], Returned r))"
proof -
  obtain t1 where d: "detect_printer E t = (t1, None)"
    using located by (cases "detect_printer E t") simp
  have "print_invoice E t data = finally_close E (tb, r)"
    using body by (simp add: print_invoice_def d)
  then show ?thesis by (simp add: finally_close_def)
qed

theorem close_error_replaces_result_witness:
  "snd (detect_printer close_fails_env []) = None
   \<and> print_invoice close_fails_env [] shirt_invoice =
       ([Usb 0x0483 0x5743, Log INFO ''Found printer with vendor 0483, product 5743'']
          @ map (Cmd \<circ> projr) (try_block close_fails_env shirt_invoice) @ [Close],
        Raised (Error ''USB device disconnected''))"
proof -
  have l: "snd (detect_printer close_fails_env []) = None" by (simp add: close_fails_detect)
  have b: "print_body close_fails_env (fst (detect_printer close_fails_env [])) shirt_invoice =
     ([Usb 0x0483 0x5743, Log INFO ''Found printer with vendor 0483, product 5743'']
        @ map (Cmd \<circ> projr) (try_block close_fails_env shirt_invoice),
      (True, ''Invoice printed successfully''))"
    by (simp add: close_fails_detect close_fails_body)
  have c: "device close_fails_env t Close = Some (Error ''USB device disconnected'')" for t
    by (simp add: close_fails_env_def)
  show ?thesis using close_error_replaces_result [OF l b] c l by simp
qed

text \<open>
  A printer whose \<open>close()\<close> raises: the job was printed in full and was about to
  return success, the caller gets the exception of \<open>close()\<close>, and no log entry
  follows \<open>close()\<close>.
\<close>

theorem close_error_masks_success:
  "snd (print_body close_fails_env (fst (detect_printer close_fails_env [])) shirt_invoice)
     = (True, ''Invoice printed successfully'')
   \<and> snd (print_invoice close_fails_env [] shirt_invoice)
     = Raised (Error ''USB device disconnected'')
   \<and> last (fst (print_invoice close_fails_env [] shirt_invoice)) = Close"
  by (simp add: print_invoice_def close_fails_detect close_fails_body finally_close_def)
     (simp add: close_fails_env_def)

text \<open>
  C4, as the code has it.  An exception leaves \<open>print_invoice\<close> in exactly two
  cases: a constructor call of \<open>detect_printer\<close> raised something other than
  \<open>USBNotFoundError\<close>, or the printer was located and \<open>close()\<close> raised.  In every
  other case (no printer present, any failure inside the \<open>try\<close> block, success) the
  outcome is a returned pair.
\<close>

theorem print_invoice_raises_iff:
  "snd (print_invoice E t data) = Raised e \<longleftrightarrow>
     (snd (detect_printer E t) = Some e \<and> (\<forall>m. e \<noteq> USBNotFoundError m))
     \<or> (snd (detect_printer E t) = None
        \<and> device E (fst (print_body E (fst (detect_printer E t)) data)) Close = Some e)"
proof -
  obtain t1 r where d: "detect_printer E t = (t1, r)" by (cases "detect_printer E t")
  obtain tb res where b: "print_body E t1 data = (tb, res)" by (cases "print_body E t1 data")
  show ?thesis
  proof (cases r)
    case None
    then show ?thesis
      by (simp add: print_invoice_def d b finally_close_def split: option.split)
  next
    case (Some x)
    then show ?thesis
      by (cases x) (auto simp: print_invoice_def d)
  qed
qed

theorem print_invoice_raises_iff_witness:
  "snd (print_invoice close_fails_env [] shirt_invoice)
     = Raised (Error ''USB device disconnected'')
   \<and> snd (print_invoice absent_env [] shirt_invoice) \<noteq> Raised (Error ''USB device disconnected'')"
  using print_invoice_raises_iff
    [of close_fails_env "[]" shirt_invoice "Error ''USB device disconnected''"]
    print_invoice_raises_iff
    [of absent_env "[]" shirt_invoice "Error ''USB device disconnected''"]
  by (simp add: close_fails_detect close_fails_body)
     (simp add: close_fails_env_def absent_env_def detect_printer_def printer_vendors_def)

text \<open>
  A printer that is present but cannot be opened: the error of the constructor call
  leaves \<open>print_invoice\<close>.
\<close>

theorem open_error_escapes:
  "snd (print_invoice busy_env [] shirt_invoice)
     = Raised (Error ''Access denied (insufficient permissions)'')"
  by (simp add: print_invoice_def detect_printer_def printer_vendors_def busy_env_def)




section \<open>Required fields\<close>

lemma validate_token_logs:
  "\<exists>logs. fst (validate_token E t req) = t @ logs \<and> (\<forall>ev\<in>set logs. \<exists>l m. ev = Log l m)"
  by (simp add: validate_token_def Let_def)

lemma validate_token_ok:
  "authorization req = Some (''Bearer '' @ auth_token E) \<Longrightarrow> snd (validate_token E t req)"
  by (simp add: validate_token_def Let_def truthy_def)

lemma find_missing:
  assumes "f \<in> set fs" "\<not> P f"
  shows "\<exists>g. find (\<lambda>x. \<not> P x) fs = Some g"
  using assms by (induction fs) auto

text \<open>
  C6, as the code has it.  Take a request whose body lacks a required field.
  Whatever its token and content type, \<open>handle_print\<close> only writes to the log: it
  makes no constructor call and no call on a printer.  If the request carries the
  expected token and is JSON, the answer is status 400 with success false and the
  message \<open>Missing required field: g\<close>, where \<open>g\<close> is the first absent field in the order
  \<open>invoice_number, invoice_date, customer_name, items, subtotal, total\<close>; when only
  one required field is absent, it is the one named.
\<close>

theorem handle_print_missing_field:
  assumes req: "f \<in> set required_fields" and absent: "\<not> has_field (json req) f"
  shows "(\<exists>logs. fst (handle_print E t req) = t @ logs \<and> (\<forall>ev\<in>set logs. \<exists>l m. ev = Log l m))
    \<and> (authorization req = Some (''Bearer '' @ auth_token E) \<and> is_json req \<longrightarrow>
        (\<exists>g. find (\<lambda>field. \<not> has_field (json req) field) required_fields = Some g
           \<and> snd (handle_print E t req) =
               Returned \<lparr>success = False, message = ''Missing required field: '' @ g,
                         status_code = 400\<rparr>))
    \<and> (authorization req = Some (''Bearer '' @ auth_token E) \<and> is_json req
        \<and> (\<forall>g\<in>set required_fields. g \<noteq> f \<longrightarrow> has_field (json req) g) \<longrightarrow>
        snd (handle_print E t req) =
          Returned \<lparr>success = False, message = ''Missing required field: '' @ f,
                    status_code = 400\<rparr>)"
proof -
  obtain g where g: "find (\<lambda>field. \<not> has_field (json req) field) required_fields = Some g"
    using find_missing [OF req, of "has_field (json req)"] absent by blast
  obtain t1 b where v: "validate_token E t req = (t1, b)" by (cases "validate_token E t req")
  have tr: "fst (handle_print E t req) = t1"
    by (simp add: handle_print_def v g split: bool.split)
  have a: "\<exists>logs. fst (handle_print E t req) = t @ logs \<and> (\<forall>ev\<in>set logs. \<exists>l m. ev = Log l m)"
    using validate_token_logs [of E t req] by (simp add: tr v)
  have r: "snd (handle_print E t req) =
      Returned \<lparr>success = False, message = ''Missing required field: '' @ g, status_code = 400\<rparr>"
    if "authorization req = Some (''Bearer '' @ auth_token E)" "is_json req"
    using validate_token_ok [OF that(1), of t] that(2) v by (simp add: handle_print_def g)
  have only: "g = f" if "\<forall>g\<in>set required_fields. g \<noteq> f \<longrightarrow> has_field (json req) g"
  proof -
    from g have "g \<in> set required_fields" "\<not> has_field (json req) g"
      by (auto simp: find_Some_iff)
    with that show ?thesis by blast
  qed
  show ?thesis using a r g only by auto
qed

theorem handle_print_missing_field_witness:
  "snd (handle_print ok_env [] no_customer_request) =
     Returned \<lparr>success = False, message = ''Missing required field: customer_name'',
               status_code = 400\<rparr>
   \<and> fst (handle_print ok_env [] no_customer_request) =
     [Log DEBUG ''Expected token: Bearer your-secret-token-here'',
      Log DEBUG ''Received token: Bearer your-secret-token-here'']"
proof -
  have "fst (handle_print ok_env [] no_customer_request) =
     [Log DEBUG ''Expected token: Bearer your-secret-token-here'',
      Log DEBUG ''Received token: Bearer your-secret-token-here'']"
    by (simp add: handle_print_def validate_token_def truthy_def Let_def required_fields_def
        has_field_def no_customer_request_def shirt_invoice_def ok_env_def pystr_opt_def)
  then show ?thesis
    using handle_print_missing_field [of "''customer_name''" no_customer_request ok_env "[]"]
    by (simp add: required_fields_def has_field_def no_customer_request_def shirt_invoice_def
        ok_env_def)
qed

text \<open>
  Two requests without a required field that are not answered as the claim says: one
  without a token, answered 401 \<open>Unauthorized\<close>; one without \<open>invoice_number\<close> and
  without \<open>total\<close>, whose answer names \<open>invoice_number\<close> and not \<open>total\<close>.
\<close>

theorem handle_print_other_answers:
  "snd (handle_print ok_env [] unauthorized_request) =
     Returned \<lparr>success = False, message = ''Unauthorized'', status_code = 401\<rparr>
   \<and> \<not> has_field (json two_missing_request) ''total''
   \<and> snd (handle_print ok_env [] two_missing_request) =
     Returned \<lparr>success = False, message = ''Missing required field: invoice_number'',
               status_code = 400\<rparr>"
  by (simp add: handle_print_def validate_token_def truthy_def Let_def required_fields_def
      has_field_def unauthorized_request_def two_missing_request_def no_customer_request_def
      shirt_invoice_def ok_env_def)

section \<open>Invoice time\<close>

lemma blocks_ignore_time:
  "header_block (data\<lparr>invoice_time := v\<rparr>) = header_block data"
  "items_block (data\<lparr>invoice_time := v\<rparr>) = items_block data"
  "totals_block (data\<lparr>invoice_time := v\<rparr>) = totals_block data"
  "terms_block (data\<lparr>invoice_time := v\<rparr>) = terms_block data"
  "images_block E (data\<lparr>invoice_time := v\<rparr>) = images_block E data"
  by (simp_all add: layout_defs)

lemma info_block_cases:
  "info_block (data\<lparr>invoice_time := None\<rparr>) =
     [Inr (SetStyle (Some AlignLeft) None),
      subscript ''invoice_number'' (invoice_number data) (\<lambda>n. text_step (''Invoice #: '' @ n @ nl)),
      subscript ''invoice_date'' (invoice_date data) (\<lambda>d. text_step (''Date: '' @ d @ nl)),
      subscript ''customer_name'' (customer_name data) (\<lambda>c. text_step (''Customer: '' @ c @ nl)),
      divider]"
  "info_block (data\<lparr>invoice_time := Some []\<rparr>) = info_block (data\<lparr>invoice_time := None\<rparr>)"
  "t \<noteq> [] \<Longrightarrow> info_block (data\<lparr>invoice_time := Some t\<rparr>) =
     [Inr (SetStyle (Some AlignLeft) None),
      subscript ''invoice_number'' (invoice_number data) (\<lambda>n. text_step (''Invoice #: '' @ n @ nl)),
      subscript ''invoice_date'' (invoice_date data) (\<lambda>d. text_step (''Date: '' @ d @ nl)),
      Inr (Text (''Time: '' @ t @ nl)),
      subscript ''customer_name'' (customer_name data) (\<lambda>c. text_step (''Customer: '' @ c @ nl)),
      divider]"
  by (simp_all add: info_block_def truthy_def subscript_def text_step_def)

text \<open>
  C9, as the code has it.  The line \<open>Time: t\<close> is printed when the invoice time is
  present and not the empty string: the statements of the job are then those of the
  same invoice without a time, with that one line inserted after the \<open>Date\<close> line and
  before the \<open>Customer\<close> line.  An invoice time that is the empty string gives the
  same statements as no invoice time.  In both cases the \<open>Invoice #\<close>, \<open>Date\<close> and
  \<open>Customer\<close> lines are the same.
\<close>

theorem time_line_iff_nonempty:
  fixes data :: invoice
  defines "d0 \<equiv> data\<lparr>invoice_time := None\<rparr>"
    and "k \<equiv> length (header_block data) + 3"
  shows "(t \<noteq> [] \<longrightarrow>
        try_block E (data\<lparr>invoice_time := Some t\<rparr>) =
          take k (try_block E d0) @ [Inr (Text (''Time: '' @ t @ nl))] @ drop k (try_block E d0))
    \<and> try_block E (data\<lparr>invoice_time := Some []\<rparr>) = try_block E d0
    \<and> (invoice_number data = Some n \<and> invoice_date data = Some d \<and> customer_name data = Some c
        \<longrightarrow> info_block d0 =
              [Inr (SetStyle (Some AlignLeft) None),
               Inr (Text (''Invoice #: '' @ n @ nl)),
               Inr (Text (''Date: '' @ d @ nl)),
               Inr (Text (''Customer: '' @ c @ nl)),
               divider]
          \<and> info_block (data\<lparr>invoice_time := Some []\<rparr>) = info_block d0
          \<and> (t \<noteq> [] \<longrightarrow> info_block (data\<lparr>invoice_time := Some t\<rparr>) =
              [Inr (SetStyle (Some AlignLeft) None),
               Inr (Text (''Invoice #: '' @ n @ nl)),
               Inr (Text (''Date: '' @ d @ nl)),
               Inr (Text (''Time: '' @ t @ nl)),
               Inr (Text (''Customer: '' @ c @ nl)),
               divider]))"
proof -
  have ins: "try_block E (data\<lparr>invoice_time := Some t\<rparr>) =
          take k (try_block E d0) @ [Inr (Text (''Time: '' @ t @ nl))] @ drop k (try_block E d0)"
    if "t \<noteq> []"
    using that
    by (simp add: try_block_def blocks_ignore_time info_block_cases d0_def k_def)
  have emp: "try_block E (data\<lparr>invoice_time := Some []\<rparr>) = try_block E d0"
    by (simp add: try_block_def blocks_ignore_time info_block_cases d0_def)
  have lines: "info_block d0 =
              [Inr (SetStyle (Some AlignLeft) None),
               Inr (Text (''Invoice #: '' @ n @ nl)),
               Inr (Text (''Date: '' @ d @ nl)),
               Inr (Text (''Customer: '' @ c @ nl)),
               divider]
          \<and> info_block (data\<lparr>invoice_time := Some []\<rparr>) = info_block d0
          \<and> (t \<noteq> [] \<longrightarrow> info_block (data\<lparr>invoice_time := Some t\<rparr>) =
              [Inr (SetStyle (Some AlignLeft) None),
               Inr (Text (''Invoice #: '' @ n @ nl)),
               Inr (Text (''Date: '' @ d @ nl)),
               Inr (Text (''Time: '' @ t @ nl)),
               Inr (Text (''Customer: '' @ c @ nl)),
               divider])"
    if "invoice_number data = Some n \<and> invoice_date data = Some d \<and> customer_name data = Some c"
    using that by (simp add: info_block_cases d0_def subscript_def text_step_def)
  show ?thesis using ins emp lines by blast
qed

theorem time_line_iff_nonempty_witness:
  "info_block timed_invoice =
     [Inr (SetStyle (Some AlignLeft) None),
      Inr (Text (''Invoice #: INV-1001'' @ nl)),
      Inr (Text (''Date: 2024-01-01'' @ nl)),
      Inr (Text (''Time: 10:30'' @ nl)),
      Inr (Text (''Customer: Jane'' @ nl)),
      divider]
   \<and> try_block ok_env empty_time_invoice = try_block ok_env shirt_invoice"
proof -
  have f: "invoice_number shirt_invoice = Some ''INV-1001''
      \<and> invoice_date shirt_invoice = Some ''2024-01-01''
      \<and> customer_name shirt_invoice = Some ''Jane''"
    by (simp add: shirt_invoice_def)
  have z: "shirt_invoice\<lparr>invoice_time := None\<rparr> = shirt_invoice"
    by (simp add: shirt_invoice_def)
  have ne: "''10:30'' \<noteq> []" by simp
  note t = time_line_iff_nonempty [of "''10:30''" ok_env shirt_invoice "''INV-1001''"
      "''2024-01-01''" "''Jane''", unfolded z]
  from t f ne have "info_block (shirt_invoice\<lparr>invoice_time := Some ''10:30''\<rparr>) =
     [Inr (SetStyle (Some AlignLeft) None),
      Inr (Text (''Invoice #: '' @ ''INV-1001'' @ nl)),
      Inr (Text (''Date: '' @ ''2024-01-01'' @ nl)),
      Inr (Text (''Time: '' @ ''10:30'' @ nl)),
      Inr (Text (''Customer: '' @ ''Jane'' @ nl)),
      divider]"
    by blast
  moreover from t have "try_block ok_env (shirt_invoice\<lparr>invoice_time := Some []\<rparr>)
      = try_block ok_env shirt_invoice"
    by blast
  ultimately show ?thesis by (simp add: timed_invoice_def empty_time_invoice_def)
qed

lemma empty_time_steps_ok: "\<forall>s\<in>set (try_block ok_env empty_time_invoice). \<not> isl s"
proof -
  have "try_block ok_env empty_time_invoice = try_block ok_env (shirt_invoice\<lparr>invoice_time := None\<rparr>)"
    by (simp add: try_block_def blocks_ignore_time info_block_cases empty_time_invoice_def)
  moreover have "shirt_invoice\<lparr>invoice_time := None\<rparr> = shirt_invoice"
    by (simp add: shirt_invoice_def)
  ultimately show ?thesis
    using shirt_steps_ok [of ok_env "[[True]]" "[[False]]"] by (simp add: ok_env_def)
qed

text \<open>
  An invoice whose time is present and is the empty string: the job succeeds and no
  \<open>Time:\<close> line is printed.
\<close>

theorem empty_time_prints_no_time_line:
  "invoice_time empty_time_invoice = Some ''''
   \<and> snd (print_invoice ok_env [] empty_time_invoice)
       = Returned (True, ''Invoice printed successfully'')
   \<and> Cmd (Text ''Time: \<newline>'') \<notin> set (fst (print_invoice ok_env [] empty_time_invoice))"
proof -
  have "print_invoice ok_env [] empty_time_invoice =
     ([] @ [Usb 0x0483 0x5743, Log INFO ''Found printer with vendor 0483, product 5743'']
        @ map (Cmd \<circ> projr) (try_block ok_env empty_time_invoice) @ [Close],
      Returned (True, ''Invoice printed successfully''))"
    by (rule print_invoice_ok [OF _ empty_time_steps_ok]) (simp add: ok_env_def)
  then show ?thesis
    by (simp add: empty_time_invoice_def shirt_invoice_def ok_env_def layout_defs shirt_rows
        text_eval company_defs)
qed

section \<open>Company profile\<close>

lemma get_or_simps: "get_or None d = d" "get_or (Some v) d = v"
  by (simp_all add: get_or_def)

lemma update_after: "(pre @ suf)[length pre + k := v] = pre @ suf[k := v]"
  by (simp add: list_update_append)

lemma drop_header:
  "drop (3 + length ps) ([s1, a, s2] @ ps @ rest) = rest"
  by (simp add: eval_nat_numeral)

lemma update_header_3:
  "([s1, a, s2] @ ps @ x # rest)[3 + length ps := x'] = [s1, a, s2] @ ps @ x' # rest"
  using update_after [of "[s1, a, s2] @ ps" "x # rest" 0 x']
  by (simp add: eval_nat_numeral)

lemma update_header_4:
  "([s1, a, s2] @ ps @ x # y # rest)[4 + length ps := y'] = [s1, a, s2] @ ps @ x # y' # rest"
  using update_after [of "[s1, a, s2] @ ps" "x # y # rest" 1 y']
  by (simp add: eval_nat_numeral)

lemma try_block_header:
  "try_block E data =
     [Inr (SetStyle (Some AlignCenter) (Some True)),
      Inr (Text (get_or (company_name data) default_company_name @ nl)),
      Inr (SetStyle None (Some False))]
     @ map (\<lambda>number. Inr (Text (number @ nl)))
         (get_or (phone_numbers data) default_company_phones)
     @ Inr (Text (get_or (address data) default_company_address @ nl))
       # Inr (Text (''GSTIN: '' @ get_or (gstin data) default_company_gstin @ nl))
       # (divider # info_block data @ items_block data @ totals_block data @ terms_block data
          @ images_block E data @ footer_block)"
  by (simp add: try_block_def header_block_def text_step_def)

lemma blocks_ignore_company:
  "info_block (data\<lparr>company_name := a\<rparr>) = info_block data"
  "items_block (data\<lparr>company_name := a\<rparr>) = items_block data"
  "totals_block (data\<lparr>company_name := a\<rparr>) = totals_block data"
  "terms_block (data\<lparr>company_name := a\<rparr>) = terms_block data"
  "images_block E (data\<lparr>company_name := a\<rparr>) = images_block E data"
  "info_block (data\<lparr>phone_numbers := b\<rparr>) = info_block data"
  "items_block (data\<lparr>phone_numbers := b\<rparr>) = items_block data"
  "totals_block (data\<lparr>phone_numbers := b\<rparr>) = totals_block data"
  "terms_block (data\<lparr>phone_numbers := b\<rparr>) = terms_block data"
  "images_block E (data\<lparr>phone_numbers := b\<rparr>) = images_block E data"
  "info_block (data\<lparr>address := a\<rparr>) = info_block data"
  "items_block (data\<lparr>address := a\<rparr>) = items_block data"
  "totals_block (data\<lparr>address := a\<rparr>) = totals_block data"
  "terms_block (data\<lparr>address := a\<rparr>) = terms_block data"
  "images_block E (data\<lparr>address := a\<rparr>) = images_block E data"
  "info_block (data\<lparr>gstin := a\<rparr>) = info_block data"
  "items_block (data\<lparr>gstin := a\<rparr>) = items_block data"
  "totals_block (data\<lparr>gstin := a\<rparr>) = totals_block data"
  "terms_block (data\<lparr>gstin := a\<rparr>) = terms_block data"
  "images_block E (data\<lparr>gstin := a\<rparr>) = images_block E data"
  "header_block (data\<lparr>website_url := a\<rparr>) = header_block data"
  "info_block (data\<lparr>website_url := a\<rparr>) = info_block data"
  "items_block (data\<lparr>website_url := a\<rparr>) = items_block data"
  "totals_block (data\<lparr>website_url := a\<rparr>) = totals_block data"
  "terms_block (data\<lparr>website_url := a\<rparr>) = terms_block data"
  by (simp_all add: layout_defs)

lemma try_block_qr:
  "try_block E data =
     (header_block data @ info_block data @ items_block data @ totals_block data
      @ terms_block data)
     @ [subscript ''invoice_number'' (invoice_number data)
          (\<lambda>n. image_step (generate_barcode E n)),
        text_step nl,
        image_step (generate_qr_code E (get_or (website_url data) default_company_website)),
        text_step nl]
     @ footer_block"
  by (simp add: try_block_def images_block_def)

text \<open>
  C7.  In the statements of the job, for every invoice, the company name, the phone
  numbers, the address and the GSTIN printed are each the field of the invoice when
  it is there and the value of the default profile when it is not, and the QR code is
  generated from the website of the invoice when it is there and from the default
  website when it is not, whatever the other fields are.  Supplying one of the five
  fields changes its own statement (or statements, for the phone numbers) and leaves
  every other statement of the job as it was.
\<close>

theorem company_lines_fall_back:
  fixes data :: invoice
  defines "phones \<equiv> get_or (phone_numbers data) default_company_phones"
    and "qr \<equiv> length (header_block data @ info_block data @ items_block data
                        @ totals_block data @ terms_block data) + 2"
  shows "(\<exists>rest. try_block E data =
        [Inr (SetStyle (Some AlignCenter) (Some True)),
         Inr (Text ((case company_name data of None \<Rightarrow> ''STAGMENFASHION'' | Some v \<Rightarrow> v) @ nl)),
         Inr (SetStyle None (Some False))]
        @ map (\<lambda>number. Inr (Text (number @ nl)))
            (case phone_numbers data of
               None \<Rightarrow> [''+917736444674'', ''+918943888200''] | Some ps \<Rightarrow> ps)
        @ [Inr (Text ((case address data of None \<Rightarrow> ''Kondotty'' | Some v \<Rightarrow> v) @ nl)),
           Inr (Text (''GSTIN: ''
                      @ (case gstin data of None \<Rightarrow> ''32MMRPS3804DIZS'' | Some v \<Rightarrow> v) @ nl))]
        @ rest)
   \<and> try_block E data ! qr =
       image_step (generate_qr_code E
         (case website_url data of None \<Rightarrow> ''https://stagmenfashion.com'' | Some v \<Rightarrow> v))
   \<and> try_block E (data\<lparr>company_name := Some v\<rparr>)
       = (try_block E data)[1 := Inr (Text (v @ nl))]
   \<and> try_block E (data\<lparr>phone_numbers := Some ps\<rparr>)
       = take 3 (try_block E data) @ map (\<lambda>number. Inr (Text (number @ nl))) ps
         @ drop (3 + length phones) (try_block E data)
   \<and> try_block E (data\<lparr>address := Some v\<rparr>)
       = (try_block E data)[3 + length phones := Inr (Text (v @ nl))]
   \<and> try_block E (data\<lparr>gstin := Some v\<rparr>)
       = (try_block E data)[4 + length phones := Inr (Text (''GSTIN: '' @ v @ nl))]
   \<and> try_block E (data\<lparr>website_url := Some v\<rparr>)
       = (try_block E data)[qr := image_step (generate_qr_code E v)]"
proof (intro conjI)
  let ?f = "\<lambda>number. Inr (Text (number @ nl)) :: step"
  have len: "length (map ?f phones) = length phones" by simp
  note dh = drop_header [of "map ?f phones", unfolded len]
  note u3 = update_header_3 [of _ _ _ "map ?f phones", unfolded len]
  note u4 = update_header_4 [of _ _ _ "map ?f phones", unfolded len]
  note tb = try_block_header [of E data, folded phones_def]
  show "\<exists>rest. try_block E data =
        [Inr (SetStyle (Some AlignCenter) (Some True)),
         Inr (Text ((case company_name data of None \<Rightarrow> ''STAGMENFASHION'' | Some v \<Rightarrow> v) @ nl)),
         Inr (SetStyle None (Some False))]
        @ map (\<lambda>number. Inr (Text (number @ nl)))
            (case phone_numbers data of
               None \<Rightarrow> [''+917736444674'', ''+918943888200''] | Some ps \<Rightarrow> ps)
        @ [Inr (Text ((case address data of None \<Rightarrow> ''Kondotty'' | Some v \<Rightarrow> v) @ nl)),
           Inr (Text (''GSTIN: ''
                      @ (case gstin data of None \<Rightarrow> ''32MMRPS3804DIZS'' | Some v \<Rightarrow> v) @ nl))]
        @ rest"
    unfolding try_block_header [of E data] get_or_def company_defs by simp
  show "try_block E data ! qr =
       image_step (generate_qr_code E
         (case website_url data of None \<Rightarrow> ''https://stagmenfashion.com'' | Some v \<Rightarrow> v))"
    unfolding qr_def try_block_qr [of E data] get_or_def company_defs
    by (simp only: nth_append_length_plus) simp
  show "try_block E (data\<lparr>company_name := Some v\<rparr>)
       = (try_block E data)[1 := Inr (Text (v @ nl))]"
    by (simp add: try_block_header blocks_ignore_company get_or_simps)
  show "try_block E (data\<lparr>phone_numbers := Some ps\<rparr>)
       = take 3 (try_block E data) @ map (\<lambda>number. Inr (Text (number @ nl))) ps
         @ drop (3 + length phones) (try_block E data)"
    unfolding tb dh
    by (simp add: try_block_header blocks_ignore_company get_or_simps)
  show "try_block E (data\<lparr>address := Some v\<rparr>)
       = (try_block E data)[3 + length phones := Inr (Text (v @ nl))]"
    unfolding tb u3
    by (simp add: try_block_header blocks_ignore_company get_or_simps phones_def)
  show "try_block E (data\<lparr>gstin := Some v\<rparr>)
       = (try_block E data)[4 + length phones := Inr (Text (''GSTIN: '' @ v @ nl))]"
    unfolding tb u4
    by (simp add: try_block_header blocks_ignore_company get_or_simps phones_def)
  show "try_block E (data\<lparr>website_url := Some v\<rparr>)
       = (try_block E data)[qr := image_step (generate_qr_code E v)]"
    unfolding qr_def try_block_qr [of E data] update_after
    by (simp add: try_block_qr blocks_ignore_company get_or_simps)
qed

theorem company_lines_fall_back_witness:
  "take 7 (try_block ok_env shirt_invoice) =
     [Inr (SetStyle (Some AlignCenter) (Some True)),
      Inr (Text (''STAGMENFASHION'' @ nl)),
      Inr (SetStyle None (Some False)),
      Inr (Text (''+917736444674'' @ nl)),
      Inr (Text (''+918943888200'' @ nl)),
      Inr (Text (''Kondotty'' @ nl)),
      Inr (Text (''GSTIN: 32MMRPS3804DIZS'' @ nl))]
   \<and> try_block ok_env (shirt_invoice\<lparr>address := Some ''12 Market Road''\<rparr>)
       = (try_block ok_env shirt_invoice)[5 := Inr (Text (''12 Market Road'' @ nl))]"
proof -
  have n: "company_name shirt_invoice = None" "phone_numbers shirt_invoice = None"
    "address shirt_invoice = None" "gstin shirt_invoice = None"
    by (simp_all add: shirt_invoice_def)
  have l: "3 + length (get_or None default_company_phones) = 5"
    by (simp add: get_or_simps default_company_phones_def)
  note t = company_lines_fall_back [of ok_env shirt_invoice "''12 Market Road''",
      unfolded n option.case l]
  from t obtain rest where "try_block ok_env shirt_invoice =
        [Inr (SetStyle (Some AlignCenter) (Some True)),
         Inr (Text (''STAGMENFASHION'' @ nl)),
         Inr (SetStyle None (Some False))]
        @ map (\<lambda>number. Inr (Text (number @ nl))) [''+917736444674'', ''+918943888200'']
        @ [Inr (Text (''Kondotty'' @ nl)), Inr (Text (''GSTIN: '' @ ''32MMRPS3804DIZS'' @ nl))]
        @ rest"
    by blast
  then have a: "take 7 (try_block ok_env shirt_invoice) =
     [Inr (SetStyle (Some AlignCenter) (Some True)),
      Inr (Text (''STAGMENFASHION'' @ nl)),
      Inr (SetStyle None (Some False)),
      Inr (Text (''+917736444674'' @ nl)),
      Inr (Text (''+918943888200'' @ nl)),
      Inr (Text (''Kondotty'' @ nl)),
      Inr (Text (''GSTIN: 32MMRPS3804DIZS'' @ nl))]"
    by simp
  from t have b: "try_block ok_env (shirt_invoice\<lparr>address := Some ''12 Market Road''\<rparr>)
       = (try_block ok_env shirt_invoice)[5 := Inr (Text (''12 Market Road'' @ nl))]"
    by blast
  show ?thesis using a b by blast
qed

end
